theory Spec2Isabelle
  imports Complex_Main
begin

section \<open>Errors and helpers shared by the JetStream client\<close>

text \<open>
  A thrown value is either a plain \<^verbatim>\<open>new Error(message)\<close>, which has no \<^verbatim>\<open>code\<close>
  property, a \<^verbatim>\<open>new NatsError(message, code)\<close>, or the \<^verbatim>\<open>TypeError\<close> the runtime raises
  when a property of \<^verbatim>\<open>null\<close> or \<^verbatim>\<open>undefined\<close> is read.
\<close>

datatype js_error =
    Error string
  | NatsError string string
  | TypeError

fun err_code :: "js_error \<Rightarrow> string option" where
  "err_code (Error m) = None"
| "err_code (NatsError m c) = Some c"
| "err_code TypeError = None"





definition JetStreamInvalidAck :: string where
  "JetStreamInvalidAck = ''JetStreamInvalidAck''"


definition ApiError :: string where
  "ApiError = ''ApiError''"

definition RequestError :: string where
  "RequestError = ''RequestError''"

text \<open>\<^verbatim>\<open>NatsError.errorForCode(code)\<close>: an error carrying that code.\<close>

definition errorForCode :: "string \<Rightarrow> js_error" where
  "errorForCode c = NatsError c c"

text \<open>
  Modelled from the spec: \<^verbatim>\<open>nanos\<close> and \<open>millis\<close> of jsutil.ts convert between
  milliseconds and nanoseconds.
\<close>

definition nanos :: "int \<Rightarrow> int" where
  "nanos ms = ms * 1000000"

definition millis :: "int \<Rightarrow> int" where
  "millis ns = ns div 1000000"

text \<open>\<^verbatim>\<open>x || d\<close> on an optional number: an absent or zero \<open>x\<close> gives \<open>d\<close>.\<close>

definition or_default :: "'a::zero option \<Rightarrow> 'a \<Rightarrow> 'a" where
  "or_default x d = (case x of None \<Rightarrow> d | Some n \<Rightarrow> if n = 0 then d else n)"


text \<open>Truthiness of an optional string: absent and empty are falsy.\<close>

definition truthy_str :: "string option \<Rightarrow> bool" where
  "truthy_str x = (case x of None \<Rightarrow> False | Some s \<Rightarrow> s \<noteq> '''')"

text \<open>\<^verbatim>\<open>x ?? d\<close>.\<close>

definition nullish :: "'a option \<Rightarrow> 'a \<Rightarrow> 'a" where
  "nullish x d = (case x of None \<Rightarrow> d | Some v \<Rightarrow> v)"

text \<open>How a template literal prints an optional string and a number.\<close>

definition show_str :: "string option \<Rightarrow> string" where
  "show_str x = (case x of None \<Rightarrow> ''undefined'' | Some s \<Rightarrow> s)"

function string_of_nat :: "nat \<Rightarrow> string" where
  "string_of_nat n =
     (if n < 10 then [''0123456789'' ! n]
      else string_of_nat (n div 10) @ [''0123456789'' ! (n mod 10)])"
  by pat_completeness auto
termination
  by (relation "measure id") auto

declare string_of_nat.simps [simp del]

text \<open>
  Modelled from the spec: the text of the \<^verbatim>\<open>Js409Errors.IdleHeartbeatMissed\<close> condition,
  declared in jsutil.ts.
\<close>

definition IdleHeartbeatMissed :: string where
  "IdleHeartbeatMissed = ''idle heartbeats missed''"


section \<open>JetStreamClientImpl.publish\<close>

text \<open>
  Only \<^verbatim>\<open>retries\<close> and \<^verbatim>\<open>retry_delay\<close> of the publish options steer the control flow;
  the remaining options end up in the headers of the request, which is the same at
  every attempt. Both are numbers that publish does not validate: they may be negative
  or fractional. The two values that are not finite numbers change nothing here: \<^verbatim>\<open>NaN\<close>
  is falsy and gives the default, and under \<^verbatim>\<open>Infinity\<close> the loop condition always holds.
\<close>

record JetStreamPublishOptions =
  retries :: "real option"
  retry_delay :: "real option"

record PubAck =
  pa_stream :: string
  pa_seq :: nat
  duplicate :: "bool option"

text \<open>What publish does on the wire and on the clock, in order.\<close>

datatype wire_event = is_Request: Request nat | Delay real

text \<open>
  The retry loop, with its counter \<open>i\<close>. \<open>request i\<close> is the outcome of the \<open>i\<close>-th call
  of \<^verbatim>\<open>this.nc.request(subj, data, ro)\<close>: a rejection or the reply. The loop yields the
  events and either the rethrown error or the value of \<^verbatim>\<open>r\<close>, which is \<open>None\<close> when the
  body never ran.
\<close>

function attempts ::
  "(nat \<Rightarrow> js_error + 'msg) \<Rightarrow> real \<Rightarrow> real \<Rightarrow> nat \<Rightarrow> wire_event list \<times> (js_error + 'msg option)"
where
  "attempts request retries' retry_delay' i =
     (if real i < retries' then
        (case request i of
           Inr r \<Rightarrow> ([Request i], Inr (Some r))
         | Inl err \<Rightarrow>
             if err_code err = Some ''503'' \<and> real (i + 1) < retries' then
               (case attempts request retries' retry_delay' (i + 1) of
                  (ev, res) \<Rightarrow> (Request i # Delay retry_delay' # ev, res))
             else ([Request i], Inl err))
      else ([], Inr None))"
  by pat_completeness auto
termination
proof (relation "measure (\<lambda>(request, n, d, i). nat \<lceil>n\<rceil> - i)")
  show "wf (measure (\<lambda>(request, n, d, i). nat \<lceil>n\<rceil> - i))"
    by simp
next
  fix request :: "nat \<Rightarrow> js_error + 'msg" and n d :: real and i :: nat and e :: js_error
  assume "real i < n"
  then have "int i < \<lceil>n\<rceil>"
    by (simp add: less_ceiling_iff)
  then show "((request, n, d, i + 1), (request, n, d, i))
      \<in> measure (\<lambda>(request, n, d, i). nat \<lceil>n\<rceil> - i)"
    by simp
qed

declare attempts.simps [simp del]

text \<open>
  \<^verbatim>\<open>parseJsResponse\<close> belongs to the base API client and is a parameter here: it decodes
  the reply or throws the API error the reply carries. It receives \<^verbatim>\<open>r\<close> as the loop
  left it, which is undefined (\<open>None\<close>) when the body never ran.
\<close>

definition publish ::
  "(nat \<Rightarrow> js_error + 'msg) \<Rightarrow> ('msg option \<Rightarrow> js_error + PubAck) \<Rightarrow>
   JetStreamPublishOptions \<Rightarrow> wire_event list \<times> (js_error + PubAck)"
where
  "publish request parseJsResponse opts =
     (let retries' = or_default (retries opts) 1;
          retry_delay' = or_default (retry_delay opts) 250
      in case attempts request retries' retry_delay' 0 of
           (ev, Inl err) \<Rightarrow> (ev, Inl err)
         | (ev, Inr r) \<Rightarrow>
             (case parseJsResponse r of
                Inl err \<Rightarrow> (ev, Inl err)
              | Inr pa \<Rightarrow>
                  if pa_stream pa = '''' then (ev, Inl (errorForCode JetStreamInvalidAck))
                  else (ev, Inr (pa\<lparr>duplicate :=
                          (if duplicate pa = Some True then duplicate pa else Some False)\<rparr>))))"


section \<open>JetStreamClientImpl.fetch\<close>

text \<open>
  \<^verbatim>\<open>Partial<PullOptions>\<close>: every field may be absent. \<^verbatim>\<open>delay_heartbeat\<close> is the test
  option the source reads under \<^verbatim>\<open>@ts-ignore\<close>. Numbers that the source tests for
  truthiness or sign are integers.
\<close>

record PullOptions =
  batch :: "int option"
  no_wait :: "bool option"
  max_bytes :: "int option"
  expires :: "int option"
  idle_heartbeat :: "int option"
  delay_heartbeat :: "bool option"

definition no_args :: PullOptions where
  "no_args = \<lparr>batch = None, no_wait = None, max_bytes = None, expires = None,
               idle_heartbeat = None, delay_heartbeat = None\<rparr>"

text \<open>Truthiness of an optional number: absent and zero are falsy.\<close>

definition truthy :: "int option \<Rightarrow> bool" where
  "truthy x = (case x of None \<Rightarrow> False | Some n \<Rightarrow> n \<noteq> 0)"

text \<open>
  What fetch needs from its surroundings: the two name validators of jsutil.ts (each
  throws or returns), the server's answer to \<^verbatim>\<open>features.get(Feature.JS_PULL_MAX_BYTES)\<close>,
  the API prefix and the inbox that \<^verbatim>\<open>createInbox\<close> hands out.
\<close>

record fetch_env =
  validateStreamName :: "string \<Rightarrow> js_error option"
  validateDurableName :: "string \<Rightarrow> js_error option"
  fv_ok :: bool
  fv_min :: string
  prefix :: string
  inbox :: string

record DeliveryInfo =
  streamSequence :: nat
  deliverySequence :: nat
  pending :: nat

record JsMsg =
  data :: string
  info :: DeliveryInfo

text \<open>The variables the closures of fetch share.\<close>

record fetch_state =
  trackBytes :: bool
  fs_max_bytes :: int
  wants :: int
  received :: nat
  receivedBytes :: nat
  timer :: bool
  monitor :: bool
  qi_received :: nat

text \<open>What the body of fetch does to the connection, in order.\<close>

datatype fetch_effect =
    Subscribe string "int option"
  | StartTimer int
  | StartMonitor int
  | Publish string PullOptions string

definition fetch ::
  "fetch_env \<Rightarrow> string \<Rightarrow> string \<Rightarrow> PullOptions \<Rightarrow> (js_error + fetch_state) \<times> fetch_effect list"
where
  "fetch env stream durable opts =
    (case validateStreamName env stream of
       Some e \<Rightarrow> (Inl e, [])
     | None \<Rightarrow>
    (case validateDurableName env durable of
       Some e \<Rightarrow> (Inl e, [])
     | None \<Rightarrow>
       let trackBytes' = (case max_bytes opts of None \<Rightarrow> False | Some b \<Rightarrow> 0 < b);
           max_bytes' = (case max_bytes opts of None \<Rightarrow> 0 | Some b \<Rightarrow> if trackBytes' then b else 0);
           args1 = no_args\<lparr>batch := Some (or_default (batch opts) 1)\<rparr>
       in
       if max_bytes' \<noteq> 0 \<and> \<not> fv_ok env then
         (Inl (Error (''max_bytes is only supported on servers '' @ fv_min env @ '' or better'')), [])
       else
       let args2 = (if max_bytes' \<noteq> 0 then args1\<lparr>max_bytes := Some max_bytes'\<rparr> else args1);
           args3 = args2\<lparr>no_wait := Some (no_wait opts = Some True)\<rparr>;
           args4 = (if no_wait args3 = Some True \<and> truthy (expires args3)
                    then args3\<lparr>expires := Some 0\<rparr> else args3);
           expires' = or_default (expires opts) 0;
           args5 = (if expires' \<noteq> 0 then args4\<lparr>expires := Some (nanos expires')\<rparr> else args4)
       in
       if expires' = 0 \<and> no_wait args5 = Some False then
         (Inl (Error ''expires or no_wait is required''), [])
       else
       let hb = or_default (idle_heartbeat opts) 0;
           args6 = (if hb \<noteq> 0 then
                      (if delay_heartbeat opts = Some True
                       then args5\<lparr>idle_heartbeat := Some (nanos (hb * 4))\<rparr>
                       else args5\<lparr>idle_heartbeat := Some (nanos hb)\<rparr>)
                    else args5)
       in
         (Inr \<lparr>trackBytes = trackBytes', fs_max_bytes = max_bytes',
               wants = or_default (batch opts) 1, received = 0, receivedBytes = 0,
               timer = (expires' \<noteq> 0), monitor = (hb \<noteq> 0), qi_received = 0\<rparr>,
          [Subscribe (inbox env) (batch opts)]
          @ (if expires' \<noteq> 0 then [StartTimer expires'] else [])
          @ (if hb \<noteq> 0 then [StartMonitor hb] else [])
          @ [Publish (prefix env @ ''.CONSUMER.MSG.NEXT.'' @ stream @ ''.'' @ durable)
               args6 (inbox env)])))"

subsection \<open>The handlers fetch installs\<close>










subsection \<open>The handlers of a fetch, called one after the other\<close>





section \<open>Consumer configuration and subscription info\<close>

text \<open>
  The enums of jsapi_types.ts, with the members the client names; \<^verbatim>\<open>None\<close> and \<^verbatim>\<open>All\<close>
  carry a prefix since HOL has constants of these names.
\<close>

datatype AckPolicy = Ack_None | Ack_All | Ack_Explicit | Ack_NotSet

datatype DeliverPolicy = Deliver_All | StartSequence

datatype ReplayPolicy = Instant

text \<open>
  \<^verbatim>\<open>Partial<ConsumerConfig>\<close>, with the fields the client reads or writes. The flow-control
  flag and the heartbeat period carry a prefix: the subscription info and the pull options
  have fields of the same names.
\<close>

record ConsumerConfig =
  durable_name :: "string option"
  deliver_subject :: "string option"
  deliver_group :: "string option"
  deliver_policy :: "DeliverPolicy option"
  opt_start_seq :: "nat option"
  ack_policy :: "AckPolicy option"
  ack_wait :: "int option"
  max_deliver :: "int option"
  filter_subject :: "string option"
  filter_subjects :: "string list option"
  replay_policy :: "ReplayPolicy option"
  cc_flow_control :: "bool option"
  cc_idle_heartbeat :: "int option"
  mem_storage :: "bool option"
  num_replicas :: "int option"

record ConsumerInfo =
  ci_name :: string
  ci_config :: ConsumerConfig
  push_bound :: "bool option"

record FlowControl =
  heartbeat_count :: nat
  fc_count :: nat
  consumer_restarts :: nat

record OrderedConsumerSequence =
  stream_seq :: nat
  delivery_seq :: nat

text \<open>
  \<^verbatim>\<open>JetStreamSubscriptionInfo\<close>. \<open>api_prefix\<close> is \<^verbatim>\<open>info.api.prefix\<close>. An empty \<open>stream\<close> is
  the falsy stream name of options that name no stream.
\<close>

record JetStreamSubscriptionInfo =
  config :: ConsumerConfig
  stream :: string
  ordered :: bool
  isBind :: bool
  name :: "string option"
  deliver :: string
  attached :: bool
  last :: "ConsumerInfo option"
  flow_control :: FlowControl
  ordered_consumer_sequence :: OrderedConsumerSequence
  api_prefix :: string


section \<open>JetStreamSubscriptionImpl\<close>

text \<open>
  The subscription as its methods see it: \<^verbatim>\<open>this.info\<close> (which may be \<^verbatim>\<open>null\<close>),
  \<^verbatim>\<open>this.sub.isClosed()\<close>, \<^verbatim>\<open>this.sub.subject\<close>, \<^verbatim>\<open>sub.noIterator\<close>,
  \<^verbatim>\<open>this.js.nc.protocol.connected\<close> and whether \<^verbatim>\<open>this.monitor\<close> is set.
\<close>

record sub_state =
  sub_info :: "JetStreamSubscriptionInfo option"
  isClosed :: bool
  subject :: string
  noIterator :: bool
  connected :: bool
  has_monitor :: bool

text \<open>
  Modelled from the spec: \<^verbatim>\<open>newJsErrorMsg\<close> of jsutil.ts builds a headers-only status
  frame with a status code and a description on a subject.
\<close>

record status_frame =
  code :: nat
  description :: string
  on_subject :: string

definition newJsErrorMsg :: "nat \<Rightarrow> string \<Rightarrow> string \<Rightarrow> status_frame" where
  "newJsErrorMsg c d s = \<lparr>code = c, description = d, on_subject = s\<rparr>"

record CreateConsumerRequest =
  stream_name :: string
  req_config :: ConsumerConfig

text \<open>What a method of the subscription does to its surroundings.\<close>

datatype sub_effect =
    Resub string
  | ApiRequest string CreateConsumerRequest
  | Callback "js_error option" "status_frame option"
  | NewMonitor int int nat
  | MonitorChange int int
  | CancelMonitor
  | NcPublish string PullOptions string

text \<open>
  \<^verbatim>\<open>_resetOrderedConsumer(sseq)\<close>, up to the request it sends; \<open>newDeliver\<close> is the inbox
  that \<^verbatim>\<open>createInbox\<close> hands out.
\<close>

definition resetOrderedConsumer ::
  "sub_state \<Rightarrow> string \<Rightarrow> nat \<Rightarrow> sub_state \<times> sub_effect list"
where
  "resetOrderedConsumer st newDeliver sseq =
    (case sub_info st of
       None \<Rightarrow> (st, [])
     | Some i \<Rightarrow>
         if isClosed st then (st, [])
         else
           let i' = i\<lparr>ordered_consumer_sequence := (ordered_consumer_sequence i)\<lparr>delivery_seq := 0\<rparr>,
                      flow_control := (flow_control i)\<lparr>heartbeat_count := 0, fc_count := 0,
                         consumer_restarts := consumer_restarts (flow_control i) + 1\<rparr>,
                      deliver := newDeliver,
                      config := (config i)\<lparr>deliver_subject := Some newDeliver,
                         deliver_policy := Some StartSequence,
                         opt_start_seq := Some sseq\<rparr>\<rparr>
           in (st\<lparr>sub_info := Some i'\<rparr>,
               [Resub newDeliver,
                ApiRequest (api_prefix i' @ ''.CONSUMER.CREATE.'' @ stream i')
                  \<lparr>stream_name = stream i', req_config = config i'\<rparr>]))"

text \<open>The two continuations of that request: the answer is adopted, a failure is injected.\<close>

definition resetOrderedConsumer_then :: "sub_state \<Rightarrow> ConsumerInfo \<Rightarrow> sub_state" where
  "resetOrderedConsumer_then st ci =
    (case sub_info st of
       None \<Rightarrow> st
     | Some i \<Rightarrow> st\<lparr>sub_info := Some (i\<lparr>config := ci_config ci, name := Some (ci_name ci)\<rparr>)\<rparr>)"

definition resetOrderedConsumer_catch :: "string \<Rightarrow> nat \<Rightarrow> sub_effect list" where
  "resetOrderedConsumer_catch stream' sseq =
    [Callback (Some (NatsError (''unable to recreate ordered consumer '' @ stream'
                                 @ '' at seq '' @ string_of_nat sseq) RequestError)) None]"

text \<open>
  The handler that \<^verbatim>\<open>_setupHbMonitoring\<close> gives to the idle-heartbeat monitor, called with
  the number of missed heartbeats. The boolean is what it returns to the monitor.
\<close>

definition hb_handler :: "sub_state \<Rightarrow> string \<Rightarrow> nat \<Rightarrow> sub_state \<times> sub_effect list \<times> bool" where
  "hb_handler st newDeliver v =
    (let msg = newJsErrorMsg 409 (IdleHeartbeatMissed @ '': '' @ string_of_nat v) (subject st);
         ordered' = (case sub_info st of None \<Rightarrow> False | Some i \<Rightarrow> ordered i)
     in
     if \<not> ordered' then (st, [Callback None (Some msg)], \<not> noIterator st)
     else if \<not> connected st then (st, [], False)
     else
       let seq = (case sub_info st of None \<Rightarrow> 0
                  | Some i \<Rightarrow> stream_seq (ordered_consumer_sequence i))
       in case resetOrderedConsumer st newDeliver (seq + 1) of
            (st', eff) \<Rightarrow> (st', eff, False))"

text \<open>\<^verbatim>\<open>_setupHbMonitoring(millis, cancelAfter)\<close> installs the monitor with \<^verbatim>\<open>maxOut: 2\<close>.\<close>

definition setupHbMonitoring :: "sub_state \<Rightarrow> int \<Rightarrow> int \<Rightarrow> sub_state \<times> sub_effect list" where
  "setupHbMonitoring st ms cancelAfter = (st\<lparr>has_monitor := True\<rparr>, [NewMonitor ms cancelAfter 2])"

text \<open>
  \<^verbatim>\<open>_maybeSetupHbMonitoring()\<close>, which a push subscription calls once its consumer is
  known: the period is the consumer's \<^verbatim>\<open>idle_heartbeat\<close>, in milliseconds.
\<close>

definition maybeSetupHbMonitoring :: "sub_state \<Rightarrow> sub_state \<times> sub_effect list" where
  "maybeSetupHbMonitoring st =
    (let ns = or_default (case sub_info st of None \<Rightarrow> None
                          | Some i \<Rightarrow> cc_idle_heartbeat (config i)) 0
     in if ns \<noteq> 0 then setupHbMonitoring st (millis ns) 0 else (st, []))"

text \<open>
  \<^verbatim>\<open>_checkOrderedConsumer(jm)\<close>. Reading \<^verbatim>\<open>this.info!\<close> of a subscription without info
  raises. The boolean is the verdict: ingest or not.
\<close>

definition checkOrderedConsumer ::
  "sub_state \<Rightarrow> string \<Rightarrow> JsMsg \<Rightarrow> js_error + sub_state \<times> sub_effect list \<times> bool"
where
  "checkOrderedConsumer st newDeliver jm =
    (case sub_info st of
       None \<Rightarrow> Inl TypeError
     | Some i \<Rightarrow>
         let ordered' = ordered_consumer_sequence i;
             sseq = streamSequence (info jm);
             dseq = deliverySequence (info jm)
         in
         if dseq \<noteq> delivery_seq ordered' + 1 then
           (case resetOrderedConsumer st newDeliver (stream_seq ordered' + 1) of
              (st', eff) \<Rightarrow> Inr (st', eff, False))
         else
           Inr (st\<lparr>sub_info := Some (i\<lparr>ordered_consumer_sequence :=
                        ordered'\<lparr>delivery_seq := dseq, stream_seq := sseq\<rparr>\<rparr>)\<rparr>,
                [], True))"


section \<open>JetStreamPullSubscriptionImpl.pull\<close>

text \<open>
  \<open>ok\<close> and \<open>minv\<close> are the server's answer to \<^verbatim>\<open>features.get(Feature.JS_PULL_MAX_BYTES)\<close>.
  Destructuring \<^verbatim>\<open>this.sub.info\<close> of a subscription without info raises.
\<close>

definition pull ::
  "bool \<Rightarrow> string \<Rightarrow> sub_state \<Rightarrow> PullOptions \<Rightarrow> (js_error + unit) \<times> sub_state \<times> sub_effect list"
where
  "pull ok minv st opts =
    (case sub_info st of
       None \<Rightarrow> (Inl TypeError, st, [])
     | Some i \<Rightarrow>
       let consumer = (case durable_name (config i) of Some d \<Rightarrow> d | None \<Rightarrow> show_str (name i));
           args1 = no_args\<lparr>batch := Some (or_default (batch opts) 1),
                           no_wait := Some (no_wait opts = Some True)\<rparr>
       in
       if 0 < nullish (max_bytes opts) 0 \<and> \<not> ok then
         (Inl (Error (''max_bytes is only supported on servers '' @ minv @ '' or better'')), st, [])
       else
       let args2 = (if 0 < nullish (max_bytes opts) 0
                    then args1\<lparr>max_bytes := max_bytes opts\<rparr> else args1);
           expires' = (if truthy (expires opts) \<and> 0 < nullish (expires opts) 0
                       then nullish (expires opts) 0 else 0);
           args3 = (if truthy (expires opts) \<and> 0 < nullish (expires opts) 0
                    then args2\<lparr>expires := Some (nanos expires')\<rparr> else args2);
           hb = (if truthy (idle_heartbeat opts) \<and> 0 < nullish (idle_heartbeat opts) 0
                 then nullish (idle_heartbeat opts) 0 else 0);
           args4 = (if truthy (idle_heartbeat opts) \<and> 0 < nullish (idle_heartbeat opts) 0
                    then args3\<lparr>idle_heartbeat := Some (nanos hb)\<rparr> else args3)
       in
       if hb \<noteq> 0 \<and> expires' = 0 then
         (Inl (Error ''idle_heartbeat requires expires''), st, [])
       else if expires' < hb then
         (Inl (Error ''expires must be greater than idle_heartbeat''), st, [])
       else
         (Inr (),
          (if expires' \<noteq> 0 \<and> hb \<noteq> 0 \<and> \<not> has_monitor st
           then fst (setupHbMonitoring st hb expires') else st),
          (if has_monitor st then [CancelMonitor] else [])
          @ (if expires' \<noteq> 0 \<and> hb \<noteq> 0 then
               (if \<not> has_monitor st then snd (setupHbMonitoring st hb expires')
                else [MonitorChange hb expires'])
             else [])
          @ [NcPublish (api_prefix i @ ''.CONSUMER.MSG.NEXT.'' @ stream i @ ''.'' @ consumer)
               args4 (subject st)]))"


section \<open>Option processing, pullSubscribe and consumer creation\<close>

text \<open>
  What the client asks of its surroundings: the stream lookup by subject, the consumer
  API (\<^verbatim>\<open>info\<close> answers with the consumer's info, or with nothing, or fails; \<^verbatim>\<open>add\<close>
  answers with the created consumer's info or fails), the inboxes that successive calls
  of \<^verbatim>\<open>createInbox\<close> hand out, and the API prefix.
\<close>

record client_env =
  findStream :: "string \<Rightarrow> js_error + string"
  consumer_info :: "string \<Rightarrow> string \<Rightarrow> js_error + ConsumerInfo option"
  consumer_add :: "string \<Rightarrow> ConsumerConfig \<Rightarrow> js_error + ConsumerInfo"
  createInbox :: "nat \<Rightarrow> string"
  client_prefix :: string

text \<open>The \<^verbatim>\<open>if (jsi.ordered)\<close> block of \<^verbatim>\<open>_processOptions\<close>.\<close>

definition processOptions_ordered ::
  "client_env \<Rightarrow> JetStreamSubscriptionInfo \<Rightarrow> js_error + JetStreamSubscriptionInfo"
where
  "processOptions_ordered env jsi =
    (let jsi1 = jsi\<lparr>ordered_consumer_sequence := \<lparr>stream_seq = 0, delivery_seq = 0\<rparr>\<rparr>;
         c = config jsi1
     in
     if ack_policy c \<noteq> Some Ack_NotSet \<and> ack_policy c \<noteq> Some Ack_None then
       Inl (NatsError (''ordered consumer: ack_policy can only be set to 'none'' @ [CHR 0x27]) ApiError)
     else if truthy_str (durable_name c) then
       Inl (NatsError ''ordered consumer: durable_name cannot be set'' ApiError)
     else if truthy_str (deliver_subject c) then
       Inl (NatsError ''ordered consumer: deliver_subject cannot be set'' ApiError)
     else if (case max_deliver c of None \<Rightarrow> False | Some n \<Rightarrow> 1 < n) then
       Inl (NatsError ''ordered consumer: max_deliver cannot be set'' ApiError)
     else if truthy_str (deliver_group c) then
       Inl (NatsError ''ordered consumer: deliver_group cannot be set'' ApiError)
     else
       Inr (jsi1\<lparr>config := c\<lparr>deliver_subject := Some (createInbox env 0),
                     ack_policy := Some Ack_None,
                     max_deliver := Some 1,
                     cc_flow_control := Some True,
                     cc_idle_heartbeat :=
                       Some (if truthy (cc_idle_heartbeat c) then nullish (cc_idle_heartbeat c) 0
                             else nanos 5000),
                     ack_wait := Some (nanos (22 * 60 * 60 * 1000)),
                     mem_storage := Some True,
                     num_replicas := Some 1\<rparr>\<rparr>))"

text \<open>
  The \<^verbatim>\<open>if (jsi.config.durable_name)\<close> block of \<^verbatim>\<open>_processOptions\<close>: the lookup of the
  durable consumer. The errors thrown inside the \<^verbatim>\<open>try\<close> have no code and are rethrown by
  the \<^verbatim>\<open>catch\<close>, which swallows a failure with code 404 only.
\<close>

definition processOptions_attach ::
  "client_env \<Rightarrow> string \<Rightarrow> JetStreamSubscriptionInfo \<Rightarrow> js_error + JetStreamSubscriptionInfo"
where
  "processOptions_attach env subj jsi =
    (case consumer_info env (stream jsi) (nullish (durable_name (config jsi)) '''') of
       Inl err \<Rightarrow> if err_code err \<noteq> Some ''404'' then Inl err else Inr jsi
     | Inr None \<Rightarrow> Inr jsi
     | Inr (Some cinfo) \<Rightarrow>
         if truthy_str (filter_subject (ci_config cinfo)) \<and> filter_subject (ci_config cinfo) \<noteq> Some subj
         then Inl (Error ''subject does not match consumer'')
         else
         let qn = nullish (deliver_group (config jsi)) '''' in
         if qn = '''' \<and> push_bound cinfo = Some True then Inl (Error ''duplicate subscription'')
         else
         let rqn = nullish (deliver_group (ci_config cinfo)) '''' in
         if qn \<noteq> rqn then
           (if rqn = '''' then Inl (Error ''durable requires no queue group'')
            else Inl (Error (''durable requires queue group '' @ [CHR 0x27] @ rqn @ [CHR 0x27])))
         else
           Inr (jsi\<lparr>last := Some cinfo, config := ci_config cinfo, attached := True,
                    name := (if \<not> truthy_str (durable_name (ci_config cinfo))
                             then Some (ci_name cinfo) else name jsi)\<rparr>))"

text \<open>
  \<^verbatim>\<open>_processOptions(subject, opts)\<close>. \<open>opts\<close> is the options object as
  \<^verbatim>\<open>JetStreamSubscriptionInfo\<close>; \<open>builder\<close> is the \<^verbatim>\<open>isBind\<close> of a \<^verbatim>\<open>ConsumerOptsBuilder\<close>,
  or nothing for plain options.
\<close>

definition processOptions ::
  "client_env \<Rightarrow> string \<Rightarrow> JetStreamSubscriptionInfo \<Rightarrow> bool option \<Rightarrow>
   js_error + JetStreamSubscriptionInfo"
where
  "processOptions env subj opts builder =
    (let jsi1 = opts\<lparr>isBind := (case builder of None \<Rightarrow> False | Some b \<Rightarrow> b),
                     flow_control := \<lparr>heartbeat_count = 0, fc_count = 0, consumer_restarts = 0\<rparr>\<rparr>
     in
     case (if ordered jsi1 then processOptions_ordered env jsi1 else Inr jsi1) of
       Inl e \<Rightarrow> Inl e
     | Inr jsi2 \<Rightarrow>
        (let jsi3 = (if ack_policy (config jsi2) = Some Ack_NotSet
                     then jsi2\<lparr>config := (config jsi2)\<lparr>ack_policy := Some Ack_All\<rparr>\<rparr> else jsi2);
             jsi4 = jsi3\<lparr>api_prefix := client_prefix env\<rparr>
         in
         case (if stream jsi4 \<noteq> '''' then Inr (stream jsi4) else findStream env subj) of
           Inl e \<Rightarrow> Inl e
         | Inr s \<Rightarrow>
            (let jsi5 = jsi4\<lparr>stream := s, attached := False\<rparr> in
             case (if truthy_str (durable_name (config jsi5))
                   then processOptions_attach env subj jsi5 else Inr jsi5) of
               Inl e \<Rightarrow> Inl e
             | Inr jsi6 \<Rightarrow>
                (let jsi7 = (if \<not> attached jsi6 \<and> filter_subject (config jsi6) = None
                                \<and> filter_subjects (config jsi6) = None
                             then jsi6\<lparr>config := (config jsi6)\<lparr>filter_subject := Some subj\<rparr>\<rparr>
                             else jsi6)
                 in
                   Inr (jsi7\<lparr>deliver := (if truthy_str (deliver_subject (config jsi7))
                                           then nullish (deliver_subject (config jsi7)) ''''
                                           else createInbox env 1)\<rparr>)))))"

subsection \<open>The check on \<^verbatim>\<open>filter_subjects\<close>\<close>

text \<open>
  The values that occur in
  \<^verbatim>\<open>Array.isArray(jsi.config.filter_subjects && !Array.isArray(ci.config.filter_subjects))\<close>:
  \<^verbatim>\<open>a && b\<close> is \<open>a\<close> when \<open>a\<close> is falsy and \<open>b\<close> otherwise, and every array is truthy.
\<close>

datatype js_value = JUndefined | JBool bool | JArray "string list"

fun js_truthy :: "js_value \<Rightarrow> bool" where
  "js_truthy JUndefined = False"
| "js_truthy (JBool b) = b"
| "js_truthy (JArray xs) = True"

definition js_and :: "js_value \<Rightarrow> js_value \<Rightarrow> js_value" where
  "js_and a b = (if js_truthy a then b else a)"

fun isArray :: "js_value \<Rightarrow> bool" where
  "isArray (JArray xs) = True"
| "isArray v = False"

definition js_subjects :: "string list option \<Rightarrow> js_value" where
  "js_subjects x = (case x of None \<Rightarrow> JUndefined | Some xs \<Rightarrow> JArray xs)"

text \<open>
  \<^verbatim>\<open>_maybeCreateConsumer(jsi)\<close>. \<^verbatim>\<open>Object.assign\<close> keeps the four defaults for the fields
  the config leaves out.
\<close>

definition maybeCreateConsumer ::
  "client_env \<Rightarrow> JetStreamSubscriptionInfo \<Rightarrow> js_error + JetStreamSubscriptionInfo"
where
  "maybeCreateConsumer env jsi =
    (if attached jsi then Inr jsi
     else if isBind jsi then
       Inl (Error (''unable to bind - durable consumer '' @ show_str (durable_name (config jsi))
                   @ '' doesn't exist in '' @ stream jsi))
     else
       let c = config jsi;
           c' = c\<lparr>deliver_policy := Some (nullish (deliver_policy c) Deliver_All),
                  ack_policy := Some (nullish (ack_policy c) Ack_Explicit),
                  ack_wait := Some (nullish (ack_wait c) (nanos (30 * 1000))),
                  replay_policy := Some (nullish (replay_policy c) Instant)\<rparr>
       in
       case consumer_add env (stream jsi) c' of
         Inl e \<Rightarrow> Inl e
       | Inr ci \<Rightarrow>
           if isArray (js_and (js_subjects (filter_subjects c'))
                              (JBool (\<not> isArray (js_subjects (filter_subjects (ci_config ci))))))
           then Inl (Error ''jetstream server doesn't support consumers with multiple filter subjects'')
           else Inr (jsi\<lparr>name := Some (ci_name ci), config := ci_config ci, last := Some ci\<rparr>))"

text \<open>
  \<^verbatim>\<open>pullSubscribe(subject, opts)\<close>. The result is the info of the subscription, which the
  consumer creation has updated in place; the effects are the subscription on the
  deliver subject and its undoing when the creation fails.
\<close>

datatype client_effect = SubscribeTo string | Unsubscribe

definition pullSubscribe ::
  "client_env \<Rightarrow> string \<Rightarrow> JetStreamSubscriptionInfo \<Rightarrow> bool option \<Rightarrow>
   (js_error + JetStreamSubscriptionInfo) \<times> client_effect list"
where
  "pullSubscribe env subj opts builder =
    (case processOptions env subj opts builder of
       Inl e \<Rightarrow> (Inl e, [])
     | Inr cso \<Rightarrow>
         if ordered cso then (Inl (Error ''pull subscribers cannot be be ordered''), [])
         else if truthy_str (deliver_subject (config cso)) then
           (Inl (Error ''consumer info specifies deliver_subject - pull consumers cannot have deliver_subject set''), [])
         else if ack_policy (config cso) = Some Ack_None \<or> ack_policy (config cso) = Some Ack_All
         then (Inl (Error ''ack policy for pull consumers must be explicit''), [])
         else
           (case maybeCreateConsumer env cso of
              Inl err \<Rightarrow> (Inl err, [SubscribeTo (deliver cso), Unsubscribe])
            | Inr cso' \<Rightarrow> (Inr cso', [SubscribeTo (deliver cso)])))"


section \<open>Concrete inputs\<close>

text \<open>Name validators that accept, and a server without and with pull \<^verbatim>\<open>max_bytes\<close>.\<close>

definition accept :: "string \<Rightarrow> js_error option" where
  "accept s = None"

definition old_server :: fetch_env where
  "old_server = \<lparr>validateStreamName = accept, validateDurableName = accept, fv_ok = False,
                  fv_min = ''2.8.3'', prefix = ''$JS.API'', inbox = ''_INBOX.1''\<rparr>"

definition new_server :: fetch_env where
  "new_server = old_server\<lparr>fv_ok := True\<rparr>"


definition fetching_one :: fetch_state where
  "fetching_one = \<lparr>trackBytes = False, fs_max_bytes = 0, wants = 1, received = 0,
                    receivedBytes = 0, timer = True, monitor = False, qi_received = 0\<rparr>"

text \<open>
  An ordered push subscription that has accepted delivery sequence 3 at stream sequence 7,
  and a message that arrives after a gap.
\<close>

definition no_config :: ConsumerConfig where
  "no_config = \<lparr>durable_name = None, deliver_subject = None, deliver_group = None,
                 deliver_policy = None, opt_start_seq = None, ack_policy = None,
                 ack_wait = None, max_deliver = None, filter_subject = None,
                 filter_subjects = None, replay_policy = None, cc_flow_control = None,
                 cc_idle_heartbeat = None, mem_storage = None, num_replicas = None\<rparr>"

definition ordered_info :: JetStreamSubscriptionInfo where
  "ordered_info =
     \<lparr>config = no_config\<lparr>deliver_subject := Some ''_INBOX.1'', ack_policy := Some Ack_None\<rparr>,
      stream = ''ORDERS'', ordered = True, isBind = False, name = Some ''oc1'',
      deliver = ''_INBOX.1'', attached = False, last = None,
      flow_control = \<lparr>heartbeat_count = 1, fc_count = 0, consumer_restarts = 0\<rparr>,
      ordered_consumer_sequence = \<lparr>stream_seq = 7, delivery_seq = 3\<rparr>,
      api_prefix = ''$JS.API''\<rparr>"

definition ordered_sub :: sub_state where
  "ordered_sub = \<lparr>sub_info = Some ordered_info, isClosed = False, subject = ''_INBOX.1'',
                   noIterator = False, connected = True, has_monitor = True\<rparr>"

definition after_gap :: JsMsg where
  "after_gap = \<lparr>data = ''hello'', info = \<lparr>streamSequence = 12, deliverySequence = 6, pending = 4\<rparr>\<rparr>"

definition in_order :: JsMsg where
  "in_order = \<lparr>data = ''hello'', info = \<lparr>streamSequence = 9, deliverySequence = 4, pending = 4\<rparr>\<rparr>"

text \<open>A pull subscription bound to the durable consumer \<^verbatim>\<open>worker\<close>.\<close>

definition pull_sub :: sub_state where
  "pull_sub =
     \<lparr>sub_info = Some (ordered_info\<lparr>ordered := False,
         config := no_config\<lparr>durable_name := Some ''worker'', ack_policy := Some Ack_Explicit\<rparr>,
         deliver := ''_INBOX.7''\<rparr>),
      isClosed = False, subject = ''_INBOX.7'', noIterator = False, connected = True,
      has_monitor = False\<rparr>"

text \<open>
  A client whose server knows no consumer yet and ignores \<^verbatim>\<open>filter_subjects\<close> when it
  creates one; consumer options that leave \<^verbatim>\<open>ack_policy\<close> unset, plain and ordered; and
  options that ask for two filter subjects.
\<close>

definition js0 :: client_env where
  "js0 = \<lparr>findStream = (\<lambda>s. Inr ''ORDERS''),
          consumer_info = (\<lambda>s d. Inl (NatsError ''consumer not found'' ''404'')),
          consumer_add = (\<lambda>s c. Inr \<lparr>ci_name = ''worker'',
                                        ci_config = c\<lparr>filter_subjects := None\<rparr>,
                                        push_bound = None\<rparr>),
          createInbox = (\<lambda>n. if n = 0 then ''_INBOX.1'' else ''_INBOX.2''),
          client_prefix = ''$JS.API''\<rparr>"

definition unset_opts :: JetStreamSubscriptionInfo where
  "unset_opts =
     \<lparr>config = no_config\<lparr>ack_policy := Some Ack_NotSet\<rparr>,
      stream = ''ORDERS'', ordered = False, isBind = False, name = None,
      deliver = '''', attached = False, last = None,
      flow_control = \<lparr>heartbeat_count = 0, fc_count = 0, consumer_restarts = 0\<rparr>,
      ordered_consumer_sequence = \<lparr>stream_seq = 0, delivery_seq = 0\<rparr>,
      api_prefix = ''$JS.API''\<rparr>"

definition ordered_opts :: JetStreamSubscriptionInfo where
  "ordered_opts = unset_opts\<lparr>ordered := True\<rparr>"

definition two_filters :: JetStreamSubscriptionInfo where
  "two_filters =
     unset_opts\<lparr>config := no_config\<lparr>durable_name := Some ''worker'',
                   ack_policy := Some Ack_Explicit,
                   filter_subjects := Some [''orders.a'', ''orders.b'']\<rparr>\<rparr>"

definition created_config :: ConsumerConfig where
  "created_config =
     no_config\<lparr>durable_name := Some ''worker'', deliver_policy := Some Deliver_All,
               ack_policy := Some Ack_Explicit, ack_wait := Some 30000000000,
               replay_policy := Some Instant\<rparr>"






definition polling :: fetch_state where
  "polling = \<lparr>trackBytes = False, fs_max_bytes = 0, wants = 1, received = 0,
               receivedBytes = 0, timer = False, monitor = False, qi_received = 0\<rparr>"

definition capped :: fetch_state where
  "capped = polling\<lparr>trackBytes := True, fs_max_bytes := 5\<rparr>"



section \<open>Properties of publish\<close>

lemma attempts_shape:
  "real i < n \<Longrightarrow> attempts request n d i = (ev, res) \<Longrightarrow>
   \<exists>m. i \<le> m \<and> real m < n \<and>
       ev = concat (map (\<lambda>k. [Request k, Delay d]) [i..<m]) @ [Request m] \<and>
       (\<forall>k. i \<le> k \<and> k < m \<longrightarrow> (\<exists>e. request k = Inl e \<and> err_code e = Some ''503'')) \<and>
       (\<forall>r. request m = Inr r \<longrightarrow> res = Inr (Some r)) \<and>
       (\<forall>e. request m = Inl e \<longrightarrow>
            res = Inl e \<and> (err_code e \<noteq> Some ''503'' \<or> n \<le> real (m + 1)))"
proof (induction request n d i arbitrary: ev res rule: attempts.induct)
  case (1 request n d i)
  show ?case
  proof (cases "request i")
    case (Inr r)
    with "1.prems" have "ev = [Request i]" "res = Inr (Some r)"
      by (simp_all add: attempts.simps [of request n d i])
    with Inr "1.prems"(1) show ?thesis
      by (intro exI [of _ i]) auto
  next
    case (Inl e)
    show ?thesis
    proof (cases "err_code e = Some ''503'' \<and> real (i + 1) < n")
      case False
      with Inl "1.prems" have "ev = [Request i]" "res = Inl e"
        by (auto simp add: attempts.simps [of request n d i])
      with Inl False "1.prems"(1) show ?thesis
        by (intro exI [of _ i]) auto
    next
      case True
      obtain ev' res' where rec: "attempts request n d (i + 1) = (ev', res')"
        by (cases "attempts request n d (i + 1)")
      with Inl True "1.prems" have ev: "ev = Request i # Delay d # ev'" and res: "res = res'"
        by (auto simp add: attempts.simps [of request n d i])
      from True have next_ok: "real (i + 1) < n" by simp
      from "1.IH" [OF "1.prems"(1) Inl True next_ok rec]
      obtain m where m: "i + 1 \<le> m" "real m < n"
        "ev' = concat (map (\<lambda>k. [Request k, Delay d]) [i + 1..<m]) @ [Request m]"
        "\<forall>k. i + 1 \<le> k \<and> k < m \<longrightarrow> (\<exists>e. request k = Inl e \<and> err_code e = Some ''503'')"
        "\<forall>r. request m = Inr r \<longrightarrow> res' = Inr (Some r)"
        "\<forall>e. request m = Inl e \<longrightarrow>
            res' = Inl e \<and> (err_code e \<noteq> Some ''503'' \<or> n \<le> real (m + 1))"
        by auto
      have upt: "[i..<m] = i # [i + 1..<m]"
        using m(1) by (simp add: upt_conv_Cons)
      have all: "\<forall>k. i \<le> k \<and> k < m \<longrightarrow> (\<exists>e. request k = Inl e \<and> err_code e = Some ''503'')"
      proof (intro allI impI)
        fix k assume k: "i \<le> k \<and> k < m"
        show "\<exists>e. request k = Inl e \<and> err_code e = Some ''503''"
        proof (cases "k = i")
          case True
          with Inl \<open>err_code e = Some ''503'' \<and> real (i + 1) < n\<close> show ?thesis by simp
        next
          case False
          with k m(4) show ?thesis by simp
        qed
      qed
      have ev2: "ev = concat (map (\<lambda>k. [Request k, Delay d]) [i..<m]) @ [Request m]"
        unfolding ev m(3) upt by simp
      have "i \<le> m" using m(1) by simp
      with m(2) ev2 all m(5,6) show ?thesis
        unfolding res by blast
    qed
  qed
qed







lemma attempts_reply:
  assumes m: "real m < n"
    and retry: "\<forall>k<m. \<exists>e. request k = Inl e \<and> err_code e = Some ''503''"
    and ok: "request m = Inr msg"
  shows "snd (attempts request n d 0) = Inr (Some msg)"
proof -
  obtain ev res where a: "attempts request n d 0 = (ev, res)"
    by (cases "attempts request n d 0")
  have "real 0 < n" using m by (simp add: order.strict_trans1)
  from attempts_shape [OF this a]
  obtain m' where m': "real m' < n"
    "\<forall>k. 0 \<le> k \<and> k < m' \<longrightarrow> (\<exists>e. request k = Inl e \<and> err_code e = Some ''503'')"
    "\<forall>r. request m' = Inr r \<longrightarrow> res = Inr (Some r)"
    "\<forall>e. request m' = Inl e \<longrightarrow> res = Inl e \<and> (err_code e \<noteq> Some ''503'' \<or> n \<le> real (m' + 1))"
    by blast
  have "\<not> m < m'"
    using m'(2) ok by auto
  moreover have "\<not> m' < m"
  proof
    assume lt: "m' < m"
    with retry obtain e where "request m' = Inl e" "err_code e = Some ''503''" by blast
    with m'(4) have "n \<le> real (m' + 1)" by auto
    moreover from lt have "real (m' + 1) \<le> real m" by simp
    ultimately show False using m by simp
  qed
  ultimately have "m' = m" by simp
  with m'(3) ok a show ?thesis by simp
qed

text \<open>
  C7. When the request that ends the retry loop is answered and the answer parses as a
  publish-ack, publish throws the InvalidAck error if the ack's stream is the empty
  string, and otherwise returns the ack with \<^verbatim>\<open>duplicate\<close> set to \<open>true\<close> if the reply
  said so and to \<open>false\<close> if the reply left it out or said \<open>false\<close>.
\<close>

theorem publish_ack_normalized:
  assumes "real m < or_default (retries opts) 1"
    and "\<forall>k<m. \<exists>e. request k = Inl e \<and> err_code e = Some ''503''"
    and "request m = Inr msg"
    and "parseJsResponse (Some msg) = Inr pa"
  shows "(pa_stream pa = '''' \<longrightarrow>
            snd (publish request parseJsResponse opts) = Inl (errorForCode JetStreamInvalidAck))
       \<and> (pa_stream pa \<noteq> '''' \<longrightarrow>
            snd (publish request parseJsResponse opts) =
              Inr (pa\<lparr>duplicate := Some (duplicate pa = Some True)\<rparr>))"
proof -
  have "snd (attempts request (or_default (retries opts) 1)
      (or_default (retry_delay opts) 250) 0) = Inr (Some msg)"
    by (rule attempts_reply [OF assms(1-3)])
  with assms(4) show ?thesis
    by (auto simp add: publish_def Let_def split: prod.splits sum.splits)
qed

theorem publish_ack_normalized_witness:
  "snd (publish (\<lambda>i. Inr ()) (\<lambda>r. Inr \<lparr>pa_stream = ''ORDERS'', pa_seq = 7, duplicate = None\<rparr>)
          \<lparr>retries = None, retry_delay = None\<rparr>)
     = Inr \<lparr>pa_stream = ''ORDERS'', pa_seq = 7, duplicate = Some False\<rparr>"
  using publish_ack_normalized
    [of 0 "\<lparr>retries = None, retry_delay = None\<rparr>" "\<lambda>i. Inr ()" "()"
        "\<lambda>r. Inr \<lparr>pa_stream = ''ORDERS'', pa_seq = 7, duplicate = None\<rparr>"
        "\<lparr>pa_stream = ''ORDERS'', pa_seq = 7, duplicate = None\<rparr>"]
  by (simp add: or_default_def)


section \<open>Properties of fetch\<close>

lemma fetch_args_no_wait_expires:
  assumes "no_wait opts = Some True" "expires opts = Some e" "0 < e"
    and "Publish subj body reply \<in> set (snd (fetch env strm dur opts))"
  shows "no_wait body = Some True \<and> expires body = Some (nanos e)"
  using assms
  by (auto simp add: fetch_def Let_def or_default_def truthy_def no_args_def
      split: option.splits if_splits)

text \<open>
  C8, as amended. When \<^verbatim>\<open>opts.no_wait\<close> is not \<open>true\<close> and \<^verbatim>\<open>opts.expires\<close> is absent or 0,
  fetch throws without having subscribed or published anything. The error is that of
  the first check that fails: the stream name's, the durable name's, the feature check's
  when \<^verbatim>\<open>max_bytes\<close> is positive and the server does not support it, and otherwise
  ``expires or no_wait is required''.
\<close>

theorem fetch_requires_expires_or_no_wait:
  assumes "no_wait opts \<noteq> Some True" and "expires opts = None \<or> expires opts = Some 0"
  shows "fetch env strm dur opts =
           (Inl (case validateStreamName env strm of
                   Some e \<Rightarrow> e
                 | None \<Rightarrow>
                     (case validateDurableName env dur of
                        Some e \<Rightarrow> e
                      | None \<Rightarrow>
                          if 0 < nullish (max_bytes opts) 0 \<and> \<not> fv_ok env
                          then Error (''max_bytes is only supported on servers '' @ fv_min env
                                      @ '' or better'')
                          else Error ''expires or no_wait is required'')), [])"
  using assms
  by (auto simp add: fetch_def Let_def or_default_def truthy_def no_args_def nullish_def
      split: option.splits)

theorem fetch_requires_expires_or_no_wait_witness:
  "fetch new_server ''ORDERS'' ''worker'' (no_args\<lparr>batch := Some 10\<rparr>)
     = (Inl (Error ''expires or no_wait is required''), [])"
  using fetch_requires_expires_or_no_wait
    [of "no_args\<lparr>batch := Some 10\<rparr>" new_server "''ORDERS''" "''worker''"]
  by (simp add: no_args_def new_server_def old_server_def accept_def)

text \<open>
  C8 as stated fails: on a server without pull \<^verbatim>\<open>max_bytes\<close>, a fetch with
  \<^verbatim>\<open>{max_bytes: 10}\<close> and neither \<^verbatim>\<open>no_wait\<close> nor \<^verbatim>\<open>expires\<close> throws the error of the feature
  check, not ``expires or no_wait is required''.
\<close>

theorem fetch_other_error_first:
  "fetch old_server ''ORDERS'' ''worker'' (no_args\<lparr>max_bytes := Some 10\<rparr>)
     = (Inl (Error ''max_bytes is only supported on servers 2.8.3 or better''), [])"
  by (simp add: fetch_def no_args_def old_server_def accept_def Let_def or_default_def)

text \<open>
  C9. When \<^verbatim>\<open>opts.no_wait\<close> is \<open>true\<close> and \<^verbatim>\<open>opts.expires\<close> is positive, every pull request
  that fetch publishes carries \<^verbatim>\<open>no_wait = true\<close> and \<^verbatim>\<open>expires = nanos(opts.expires)\<close>,
  which is not zero: the branch that would zero \<^verbatim>\<open>args.expires\<close> reads it before it is
  assigned. And fetch does publish the request once the names are valid and \<^verbatim>\<open>max_bytes\<close>
  passes the feature check.
\<close>

theorem fetch_no_wait_keeps_expires:
  assumes "no_wait opts = Some True" and "expires opts = Some e" and "0 < e"
  shows "(\<forall>subj body reply.
            Publish subj body reply \<in> set (snd (fetch env strm dur opts)) \<longrightarrow>
            no_wait body = Some True \<and> expires body = Some (nanos e) \<and> nanos e \<noteq> 0)
       \<and> (validateStreamName env strm = None \<and> validateDurableName env dur = None \<and>
            (fv_ok env \<or> (case max_bytes opts of None \<Rightarrow> True | Some b \<Rightarrow> b \<le> 0))
          \<longrightarrow> (\<exists>body. Publish (prefix env @ ''.CONSUMER.MSG.NEXT.'' @ strm @ ''.'' @ dur)
                        body (inbox env) \<in> set (snd (fetch env strm dur opts))))"
proof -
  have nz: "nanos e \<noteq> 0" using assms(3) by (simp add: nanos_def)
  have pub: "validateStreamName env strm = None \<Longrightarrow> validateDurableName env dur = None \<Longrightarrow>
      fv_ok env \<or> (case max_bytes opts of None \<Rightarrow> True | Some b \<Rightarrow> b \<le> 0) \<Longrightarrow>
      \<exists>body. Publish (prefix env @ ''.CONSUMER.MSG.NEXT.'' @ strm @ ''.'' @ dur)
                        body (inbox env) \<in> set (snd (fetch env strm dur opts))"
    using assms
    by (auto simp add: fetch_def Let_def or_default_def split: option.splits)
  show ?thesis
    using fetch_args_no_wait_expires [OF assms] nz pub by blast
qed

theorem fetch_no_wait_keeps_expires_witness:
  "snd (fetch new_server ''ORDERS'' ''worker'' (no_args\<lparr>no_wait := Some True, expires := Some 1000\<rparr>))
     = [Subscribe ''_INBOX.1'' None, StartTimer 1000,
        Publish ''$JS.API.CONSUMER.MSG.NEXT.ORDERS.worker''
          (no_args\<lparr>batch := Some 1, no_wait := Some True, expires := Some 1000000000\<rparr>)
          ''_INBOX.1'']"
  using fetch_no_wait_keeps_expires
    [of "no_args\<lparr>no_wait := Some True, expires := Some 1000\<rparr>" 1000 new_server "''ORDERS''" "''worker''"]
  by (simp add: fetch_def no_args_def new_server_def old_server_def accept_def Let_def
      or_default_def truthy_def nanos_def)

lemma fetching_one_is_fetched:
  "fst (fetch new_server ''ORDERS'' ''worker'' (no_args\<lparr>batch := Some 1, expires := Some 1000\<rparr>))
     = Inr fetching_one"
  by (simp add: fetch_def no_args_def new_server_def old_server_def accept_def Let_def
      or_default_def truthy_def fetching_one_def)

lemma polling_is_fetched:
  "fst (fetch new_server ''ORDERS'' ''worker'' (no_args\<lparr>no_wait := Some True\<rparr>)) = Inr polling"
  by (simp add: fetch_def no_args_def new_server_def old_server_def accept_def Let_def
      or_default_def truthy_def polling_def)

lemma capped_is_fetched:
  "fst (fetch new_server ''ORDERS'' ''worker''
          (no_args\<lparr>no_wait := Some True, max_bytes := Some 5\<rparr>)) = Inr capped"
  by (simp add: fetch_def no_args_def new_server_def old_server_def accept_def Let_def
      or_default_def truthy_def polling_def capped_def)







section \<open>Properties of the subscriptions\<close>

lemma resetOrderedConsumer_closed:
  "isClosed st \<Longrightarrow> resetOrderedConsumer st nd sseq = (st, [])"
  by (simp add: resetOrderedConsumer_def split: option.splits)

lemma resetOrderedConsumer_open:
  assumes "sub_info st = Some i" and "\<not> isClosed st"
  shows "\<exists>st' i'. resetOrderedConsumer st nd sseq =
           (st', [Resub nd, ApiRequest (api_prefix i @ ''.CONSUMER.CREATE.'' @ stream i)
                              \<lparr>stream_name = stream i, req_config = config i'\<rparr>])
         \<and> sub_info st' = Some i'
         \<and> delivery_seq (ordered_consumer_sequence i') = 0
         \<and> stream_seq (ordered_consumer_sequence i') = stream_seq (ordered_consumer_sequence i)
         \<and> consumer_restarts (flow_control i') = consumer_restarts (flow_control i) + 1
         \<and> deliver i' = nd
         \<and> config i' = (config i)\<lparr>deliver_subject := Some nd,
               deliver_policy := Some StartSequence, opt_start_seq := Some sseq\<rparr>"
  using assms by (simp add: resetOrderedConsumer_def Let_def)

text \<open>
  C1, as amended. On a subscription with info, a message whose delivery sequence is the
  recorded \<^verbatim>\<open>delivery_seq + 1\<close> is ingested and both recorded sequences become the
  message's. Any other message is not ingested; unless the subscription is closed, the
  consumer is then recreated at the recorded \<^verbatim>\<open>stream_seq + 1\<close> (the subscription moves to
  a fresh inbox, \<^verbatim>\<open>delivery_seq\<close> is reset to 0 and a CONSUMER.CREATE request with
  \<^verbatim>\<open>deliver_policy = StartSequence\<close> and that \<^verbatim>\<open>opt_start_seq\<close> is sent), and on a closed
  subscription nothing is changed or sent. So a message is ingested only with the
  recorded delivery sequence plus one, which then is the recorded one.
\<close>

theorem checkOrderedConsumer_sequence:
  assumes "sub_info st = Some i"
  shows
   "(deliverySequence (info jm) = delivery_seq (ordered_consumer_sequence i) + 1 \<longrightarrow>
       checkOrderedConsumer st nd jm =
         Inr (st\<lparr>sub_info := Some (i\<lparr>ordered_consumer_sequence :=
                   \<lparr>stream_seq = streamSequence (info jm),
                    delivery_seq = deliverySequence (info jm)\<rparr>\<rparr>)\<rparr>, [], True))
    \<and> (deliverySequence (info jm) \<noteq> delivery_seq (ordered_consumer_sequence i) + 1 \<longrightarrow>
         (isClosed st \<longrightarrow> checkOrderedConsumer st nd jm = Inr (st, [], False)) \<and>
         (\<not> isClosed st \<longrightarrow>
            (\<exists>st' i'. checkOrderedConsumer st nd jm =
                 Inr (st', [Resub nd,
                            ApiRequest (api_prefix i @ ''.CONSUMER.CREATE.'' @ stream i)
                              \<lparr>stream_name = stream i, req_config = config i'\<rparr>], False)
               \<and> sub_info st' = Some i'
               \<and> delivery_seq (ordered_consumer_sequence i') = 0
               \<and> config i' = (config i)\<lparr>deliver_subject := Some nd,
                     deliver_policy := Some StartSequence,
                     opt_start_seq := Some (stream_seq (ordered_consumer_sequence i) + 1)\<rparr>)))
    \<and> (\<forall>st' eff. checkOrderedConsumer st nd jm = Inr (st', eff, True) \<longrightarrow>
          (\<exists>i'. sub_info st' = Some i'
             \<and> delivery_seq (ordered_consumer_sequence i')
                 = delivery_seq (ordered_consumer_sequence i) + 1))"
proof -
  let ?o = "ordered_consumer_sequence i"
  have eq: "deliverySequence (info jm) = delivery_seq ?o + 1 \<Longrightarrow>
       checkOrderedConsumer st nd jm =
         Inr (st\<lparr>sub_info := Some (i\<lparr>ordered_consumer_sequence :=
                   \<lparr>stream_seq = streamSequence (info jm),
                    delivery_seq = deliverySequence (info jm)\<rparr>\<rparr>)\<rparr>, [], True)"
    using assms by (simp add: checkOrderedConsumer_def Let_def)
  have gap_closed: "deliverySequence (info jm) \<noteq> delivery_seq ?o + 1 \<Longrightarrow> isClosed st \<Longrightarrow>
       checkOrderedConsumer st nd jm = Inr (st, [], False)"
    using assms by (simp add: checkOrderedConsumer_def Let_def resetOrderedConsumer_closed)
  have gap_open: "\<exists>st' i'. checkOrderedConsumer st nd jm =
                 Inr (st', [Resub nd,
                            ApiRequest (api_prefix i @ ''.CONSUMER.CREATE.'' @ stream i)
                              \<lparr>stream_name = stream i, req_config = config i'\<rparr>], False)
               \<and> sub_info st' = Some i'
               \<and> delivery_seq (ordered_consumer_sequence i') = 0
               \<and> config i' = (config i)\<lparr>deliver_subject := Some nd,
                     deliver_policy := Some StartSequence,
                     opt_start_seq := Some (stream_seq ?o + 1)\<rparr>"
    if "deliverySequence (info jm) \<noteq> delivery_seq ?o + 1" and "\<not> isClosed st"
  proof -
    from resetOrderedConsumer_open [OF assms that(2), of nd "stream_seq ?o + 1"]
    obtain st' i' where r: "resetOrderedConsumer st nd (stream_seq ?o + 1) =
           (st', [Resub nd, ApiRequest (api_prefix i @ ''.CONSUMER.CREATE.'' @ stream i)
                              \<lparr>stream_name = stream i, req_config = config i'\<rparr>])"
      "sub_info st' = Some i'" "delivery_seq (ordered_consumer_sequence i') = 0"
      "config i' = (config i)\<lparr>deliver_subject := Some nd,
               deliver_policy := Some StartSequence, opt_start_seq := Some (stream_seq ?o + 1)\<rparr>"
      by blast
    from that(1) assms r(1) have "checkOrderedConsumer st nd jm =
        Inr (st', [Resub nd, ApiRequest (api_prefix i @ ''.CONSUMER.CREATE.'' @ stream i)
                              \<lparr>stream_name = stream i, req_config = config i'\<rparr>], False)"
      by (simp add: checkOrderedConsumer_def Let_def)
    with r(2,3,4) show ?thesis by blast
  qed
  have acc: "\<exists>i'. sub_info st' = Some i'
             \<and> delivery_seq (ordered_consumer_sequence i') = delivery_seq ?o + 1"
    if "checkOrderedConsumer st nd jm = Inr (st', eff, True)" for st' eff
  proof (cases "deliverySequence (info jm) = delivery_seq ?o + 1")
    case True
    from eq [OF True] that True show ?thesis by auto
  next
    case False
    with that assms show ?thesis
      by (auto simp add: checkOrderedConsumer_def Let_def split: prod.splits)
  qed
  from eq gap_closed gap_open acc show ?thesis by blast
qed

theorem checkOrderedConsumer_sequence_witness:
  "checkOrderedConsumer ordered_sub ''_INBOX.2'' in_order =
     Inr (ordered_sub\<lparr>sub_info := Some (ordered_info\<lparr>ordered_consumer_sequence :=
            \<lparr>stream_seq = 9, delivery_seq = 4\<rparr>\<rparr>)\<rparr>, [], True)
   \<and> fst (snd (projr (checkOrderedConsumer ordered_sub ''_INBOX.2'' after_gap))) =
       [Resub ''_INBOX.2'',
        ApiRequest ''$JS.API.CONSUMER.CREATE.ORDERS''
          \<lparr>stream_name = ''ORDERS'',
           req_config = (config ordered_info)\<lparr>deliver_subject := Some ''_INBOX.2'',
             deliver_policy := Some StartSequence, opt_start_seq := Some 8\<rparr>\<rparr>]"
  using checkOrderedConsumer_sequence [of ordered_sub ordered_info in_order "''_INBOX.2''"]
    checkOrderedConsumer_sequence [of ordered_sub ordered_info after_gap "''_INBOX.2''"]
  by (auto simp add: ordered_sub_def ordered_info_def in_order_def after_gap_def)

text \<open>
  C1 as stated fails: on a closed subscription a message after a gap is not ingested, but
  no consumer is recreated; \<^verbatim>\<open>_resetOrderedConsumer\<close> returns at its guard.
\<close>

theorem checkOrderedConsumer_closed_no_recreate:
  "checkOrderedConsumer (ordered_sub\<lparr>isClosed := True\<rparr>) ''_INBOX.2'' after_gap
     = Inr (ordered_sub\<lparr>isClosed := True\<rparr>, [], False)"
  by (simp add: checkOrderedConsumer_def resetOrderedConsumer_def ordered_sub_def
      ordered_info_def after_gap_def Let_def)

text \<open>
  C4, as amended. When the monitor reports \<open>v\<close> missed heartbeats: on a subscription that
  is not ordered (or has no info) the 409 frame ``idle heartbeats missed: v'' is handed
  to the subscription's callback; on an ordered subscription no frame is injected, and
  nothing is done if the connection is down, nothing either if the subscription is
  closed, and otherwise the consumer is recreated at the recorded \<^verbatim>\<open>stream_seq + 1\<close>.
\<close>

theorem hb_handler_missed:
  "((sub_info st = None \<or> (\<exists>i. sub_info st = Some i \<and> \<not> ordered i)) \<longrightarrow>
      hb_handler st nd v =
        (st, [Callback None (Some \<lparr>code = 409,
                description = IdleHeartbeatMissed @ '': '' @ string_of_nat v,
                on_subject = subject st\<rparr>)], \<not> noIterator st))
   \<and> (\<forall>i. sub_info st = Some i \<and> ordered i \<longrightarrow>
        (\<not> connected st \<longrightarrow> hb_handler st nd v = (st, [], False)) \<and>
        (connected st \<and> isClosed st \<longrightarrow> hb_handler st nd v = (st, [], False)) \<and>
        (connected st \<and> \<not> isClosed st \<longrightarrow>
           (\<exists>st' i'. hb_handler st nd v =
                (st', [Resub nd,
                       ApiRequest (api_prefix i @ ''.CONSUMER.CREATE.'' @ stream i)
                         \<lparr>stream_name = stream i, req_config = config i'\<rparr>], False)
              \<and> sub_info st' = Some i'
              \<and> delivery_seq (ordered_consumer_sequence i') = 0
              \<and> config i' = (config i)\<lparr>deliver_subject := Some nd,
                    deliver_policy := Some StartSequence,
                    opt_start_seq := Some (stream_seq (ordered_consumer_sequence i) + 1)\<rparr>)))"
proof -
  have unordered: "hb_handler st nd v =
        (st, [Callback None (Some \<lparr>code = 409,
                description = IdleHeartbeatMissed @ '': '' @ string_of_nat v,
                on_subject = subject st\<rparr>)], \<not> noIterator st)"
    if "sub_info st = None \<or> (\<exists>i. sub_info st = Some i \<and> \<not> ordered i)"
    using that by (auto simp add: hb_handler_def Let_def newJsErrorMsg_def)
  have down: "hb_handler st nd v = (st, [], False)"
    if "sub_info st = Some i" "ordered i" "\<not> connected st" for i
    using that by (simp add: hb_handler_def Let_def)
  have closed: "hb_handler st nd v = (st, [], False)"
    if "sub_info st = Some i" "ordered i" "connected st" "isClosed st" for i
    using that by (simp add: hb_handler_def Let_def resetOrderedConsumer_closed)
  have up: "\<exists>st' i'. hb_handler st nd v =
                (st', [Resub nd,
                       ApiRequest (api_prefix i @ ''.CONSUMER.CREATE.'' @ stream i)
                         \<lparr>stream_name = stream i, req_config = config i'\<rparr>], False)
              \<and> sub_info st' = Some i'
              \<and> delivery_seq (ordered_consumer_sequence i') = 0
              \<and> config i' = (config i)\<lparr>deliver_subject := Some nd,
                    deliver_policy := Some StartSequence,
                    opt_start_seq := Some (stream_seq (ordered_consumer_sequence i) + 1)\<rparr>"
    if i: "sub_info st = Some i" "ordered i" "connected st" "\<not> isClosed st" for i
  proof -
    let ?o = "ordered_consumer_sequence i"
    from resetOrderedConsumer_open [OF i(1) i(4), of nd "stream_seq ?o + 1"]
    obtain st' i' where r: "resetOrderedConsumer st nd (stream_seq ?o + 1) =
           (st', [Resub nd, ApiRequest (api_prefix i @ ''.CONSUMER.CREATE.'' @ stream i)
                              \<lparr>stream_name = stream i, req_config = config i'\<rparr>])"
      "sub_info st' = Some i'" "delivery_seq (ordered_consumer_sequence i') = 0"
      "config i' = (config i)\<lparr>deliver_subject := Some nd,
               deliver_policy := Some StartSequence, opt_start_seq := Some (stream_seq ?o + 1)\<rparr>"
      by blast
    from i r(1) have "hb_handler st nd v =
        (st', [Resub nd, ApiRequest (api_prefix i @ ''.CONSUMER.CREATE.'' @ stream i)
                              \<lparr>stream_name = stream i, req_config = config i'\<rparr>], False)"
      by (simp add: hb_handler_def Let_def)
    with r(2,3,4) show ?thesis by blast
  qed
  from unordered down closed up show ?thesis by blast
qed

theorem hb_handler_missed_witness:
  "hb_handler pull_sub ''_INBOX.2'' 2 =
     (pull_sub, [Callback None (Some \<lparr>code = 409, description = ''idle heartbeats missed: 2'',
                                      on_subject = ''_INBOX.7''\<rparr>)], True)
   \<and> fst (snd (hb_handler ordered_sub ''_INBOX.2'' 2)) =
       [Resub ''_INBOX.2'',
        ApiRequest ''$JS.API.CONSUMER.CREATE.ORDERS''
          \<lparr>stream_name = ''ORDERS'',
           req_config = (config ordered_info)\<lparr>deliver_subject := Some ''_INBOX.2'',
             deliver_policy := Some StartSequence, opt_start_seq := Some 8\<rparr>\<rparr>]
   \<and> hb_handler (ordered_sub\<lparr>connected := False\<rparr>) ''_INBOX.2'' 2
       = (ordered_sub\<lparr>connected := False\<rparr>, [], False)"
  using hb_handler_missed [of pull_sub "''_INBOX.2''" 2]
    hb_handler_missed [of ordered_sub "''_INBOX.2''" 2]
    hb_handler_missed [of "ordered_sub\<lparr>connected := False\<rparr>" "''_INBOX.2''" 2]
  by (auto simp add: ordered_sub_def ordered_info_def pull_sub_def IdleHeartbeatMissed_def
      string_of_nat.simps)

text \<open>
  C4 as stated fails: on an ordered subscription that is closed, with the connection up,
  missed heartbeats do not recreate the consumer.
\<close>

theorem hb_handler_closed_no_recreate:
  "hb_handler (ordered_sub\<lparr>isClosed := True\<rparr>) ''_INBOX.2'' 2
     = (ordered_sub\<lparr>isClosed := True\<rparr>, [], False)"
  by (simp add: hb_handler_def resetOrderedConsumer_def ordered_sub_def ordered_info_def Let_def)

text \<open>
  C6. A pull with \<^verbatim>\<open>idle_heartbeat = 1000\<close> and \<^verbatim>\<open>expires = 1000\<close> does not fail: it installs
  the monitor and publishes the request, although \<^verbatim>\<open>expires\<close> is not greater than
  \<^verbatim>\<open>idle_heartbeat\<close>. The check \<^verbatim>\<open>hb > expires\<close> lets equality through; its own message
  asks for ``expires must be greater than idle_heartbeat''.
\<close>

theorem pull_expires_equal_to_idle_heartbeat:
  "pull True ''2.8.3'' pull_sub (no_args\<lparr>expires := Some 1000, idle_heartbeat := Some 1000\<rparr>)
     = (Inr (), pull_sub\<lparr>has_monitor := True\<rparr>,
        [NewMonitor 1000 1000 2,
         NcPublish ''$JS.API.CONSUMER.MSG.NEXT.ORDERS.worker''
           (no_args\<lparr>batch := Some 1, no_wait := Some False, expires := Some 1000000000,
                    idle_heartbeat := Some 1000000000\<rparr>)
           ''_INBOX.7''])"
  by (simp add: pull_def pull_sub_def ordered_info_def no_config_def no_args_def Let_def
      or_default_def truthy_def nullish_def nanos_def setupHbMonitoring_def)

text \<open>
  In general a pull with a positive \<^verbatim>\<open>idle_heartbeat\<close> throws exactly when \<^verbatim>\<open>expires\<close> is
  absent or smaller than it (once \<^verbatim>\<open>max_bytes\<close> has passed the feature check).
\<close>

lemma pull_fails_fast_iff:
  assumes "sub_info st = Some i" and "idle_heartbeat opts = Some h" and "0 < h"
    and "ok \<or> nullish (max_bytes opts) 0 \<le> 0"
  shows "(\<exists>e. fst (pull ok minv st opts) = Inl e) \<longleftrightarrow>
           \<not> (\<exists>x. expires opts = Some x \<and> h \<le> x)"
  using assms
  by (auto simp add: pull_def Let_def truthy_def nullish_def split: option.splits)


section \<open>Properties of option processing and consumer creation\<close>

text \<open>
  The argument of the outer \<^verbatim>\<open>Array.isArray\<close> is \<^verbatim>\<open>undefined\<close> or a boolean, never an
  array: the check cannot fire.
\<close>

lemma filter_subjects_check_never_fires: "\<not> isArray (js_and a (JBool b))"
  by (cases a) (simp_all add: js_and_def)

lemma maybeCreateConsumer_adopts:
  assumes "\<not> attached jsi" and "\<not> isBind jsi"
    and "consumer_add env (stream jsi)
           ((config jsi)\<lparr>deliver_policy := Some (nullish (deliver_policy (config jsi)) Deliver_All),
              ack_policy := Some (nullish (ack_policy (config jsi)) Ack_Explicit),
              ack_wait := Some (nullish (ack_wait (config jsi)) (nanos (30 * 1000))),
              replay_policy := Some (nullish (replay_policy (config jsi)) Instant)\<rparr>) = Inr ci"
  shows "maybeCreateConsumer env jsi
           = Inr (jsi\<lparr>name := Some (ci_name ci), config := ci_config ci, last := Some ci\<rparr>)"
  using assms
  by (simp add: maybeCreateConsumer_def Let_def filter_subjects_check_never_fires)

text \<open>
  C5. With two filter subjects in the user's config and a server that answers with a
  config without \<^verbatim>\<open>filter_subjects\<close>, \<^verbatim>\<open>_maybeCreateConsumer\<close> does not fail: it adopts
  the server's answer. The error about multiple filter subjects is never thrown, since
  the negated inner test sits inside the outer \<^verbatim>\<open>Array.isArray\<close>.
\<close>

theorem maybeCreateConsumer_accepts_dropped_filters:
  "maybeCreateConsumer js0 two_filters
     = Inr (two_filters\<lparr>name := Some ''worker'', config := created_config,
              last := Some \<lparr>ci_name = ''worker'', ci_config = created_config,
                            push_bound = None\<rparr>\<rparr>)"
  by (simp add: maybeCreateConsumer_def js0_def two_filters_def unset_opts_def no_config_def
      created_config_def Let_def nullish_def nanos_def js_and_def js_subjects_def)

lemma processOptions_ordered_Inr:
  assumes "processOptions_ordered env jsi = Inr j"
  shows "ordered j = ordered jsi" and "attached j = attached jsi"
    and "ack_policy (config j) = Some Ack_None"
    and "\<not> truthy_str (durable_name (config j))"
    and "stream j = stream jsi"
  using assms
  by (auto simp add: processOptions_ordered_def Let_def split: if_splits)

lemma processOptions_attach_Inr:
  assumes "processOptions_attach env subj jsi = Inr j"
  shows "j = jsi \<or>
         (attached j \<and> ordered j = ordered jsi \<and>
          (\<exists>ci. consumer_info env (stream jsi) (nullish (durable_name (config jsi)) '''')
                   = Inr (Some ci) \<and> config j = ci_config ci))"
  using assms
  by (auto simp add: processOptions_attach_def Let_def split: sum.splits option.splits if_splits)

text \<open>The stages of a successful \<^verbatim>\<open>_processOptions\<close>.\<close>

lemma processOptions_stages:
  assumes "processOptions env subj opts b = Inr cso"
  shows "\<exists>jsi2 s jsi6.
    (if ordered opts then processOptions_ordered env
         (opts\<lparr>isBind := (case b of None \<Rightarrow> False | Some x \<Rightarrow> x),
               flow_control := \<lparr>heartbeat_count = 0, fc_count = 0, consumer_restarts = 0\<rparr>\<rparr>)
      else Inr (opts\<lparr>isBind := (case b of None \<Rightarrow> False | Some x \<Rightarrow> x),
               flow_control := \<lparr>heartbeat_count = 0, fc_count = 0, consumer_restarts = 0\<rparr>\<rparr>))
       = Inr jsi2
    \<and> (if truthy_str (durable_name (config jsi2))
          then processOptions_attach env subj
                 (jsi2\<lparr>config := (config jsi2)\<lparr>ack_policy :=
                          (if ack_policy (config jsi2) = Some Ack_NotSet then Some Ack_All
                           else ack_policy (config jsi2))\<rparr>,
                       api_prefix := client_prefix env, stream := s, attached := False\<rparr>)
          else Inr (jsi2\<lparr>config := (config jsi2)\<lparr>ack_policy :=
                          (if ack_policy (config jsi2) = Some Ack_NotSet then Some Ack_All
                           else ack_policy (config jsi2))\<rparr>,
                       api_prefix := client_prefix env, stream := s, attached := False\<rparr>))
       = Inr jsi6
    \<and> attached cso = attached jsi6 \<and> ordered cso = ordered jsi6
    \<and> ack_policy (config cso) = ack_policy (config jsi6)
    \<and> deliver_subject (config cso) = deliver_subject (config jsi6)
    \<and> (attached jsi6 \<longrightarrow> config cso = config jsi6)"
proof -
  define jsi1 where "jsi1 = opts\<lparr>isBind := (case b of None \<Rightarrow> False | Some x \<Rightarrow> x),
       flow_control := \<lparr>heartbeat_count = 0, fc_count = 0, consumer_restarts = 0\<rparr>\<rparr>"
  define A where "A = (if ordered jsi1 then processOptions_ordered env jsi1 else Inr jsi1)"
  define J4 where "J4 = (\<lambda>jsi2 :: JetStreamSubscriptionInfo. (if ack_policy (config jsi2) = Some Ack_NotSet
        then jsi2\<lparr>config := (config jsi2)\<lparr>ack_policy := Some Ack_All\<rparr>\<rparr> else jsi2)
          \<lparr>api_prefix := client_prefix env\<rparr>)"
  define B where "B = (\<lambda>jsi2. if stream (J4 jsi2) \<noteq> '''' then Inr (stream (J4 jsi2))
        else findStream env subj)"
  define J5 where "J5 = (\<lambda>jsi2 s. (J4 jsi2)\<lparr>stream := s, attached := False\<rparr>)"
  define C where "C = (\<lambda>jsi2 s. if truthy_str (durable_name (config (J5 jsi2 s)))
        then processOptions_attach env subj (J5 jsi2 s) else Inr (J5 jsi2 s))"
  define J7 where "J7 = (\<lambda>jsi6 :: JetStreamSubscriptionInfo. if \<not> attached jsi6 \<and> filter_subject (config jsi6) = None
        \<and> filter_subjects (config jsi6) = None
      then jsi6\<lparr>config := (config jsi6)\<lparr>filter_subject := Some subj\<rparr>\<rparr> else jsi6)"
  define D where "D = (\<lambda>jsi6. (J7 jsi6)\<lparr>deliver := (if truthy_str (deliver_subject (config (J7 jsi6)))
       then nullish (deliver_subject (config (J7 jsi6))) '''' else createInbox env 1)\<rparr>)"
  have unfold: "processOptions env subj opts b =
      (case A of Inl e \<Rightarrow> Inl e
       | Inr jsi2 \<Rightarrow> (case B jsi2 of Inl e \<Rightarrow> Inl e
          | Inr s \<Rightarrow> (case C jsi2 s of Inl e \<Rightarrow> Inl e | Inr jsi6 \<Rightarrow> Inr (D jsi6))))"
    unfolding processOptions_def Let_def A_def B_def C_def D_def J4_def J5_def J7_def jsi1_def
    by (rule refl)
  from assms obtain jsi2 s jsi6 where st: "A = Inr jsi2" "B jsi2 = Inr s" "C jsi2 s = Inr jsi6"
    "cso = D jsi6"
    unfolding unfold by (auto split: sum.splits)
  have j5: "J5 jsi2 s = jsi2\<lparr>config := (config jsi2)\<lparr>ack_policy :=
                          (if ack_policy (config jsi2) = Some Ack_NotSet then Some Ack_All
                           else ack_policy (config jsi2))\<rparr>,
                       api_prefix := client_prefix env, stream := s, attached := False\<rparr>"
    by (simp add: J5_def J4_def)
  have d5: "durable_name (config (J5 jsi2 s)) = durable_name (config jsi2)"
    by (simp add: J5_def J4_def)
  have 1: "(if ordered opts then processOptions_ordered env
         (opts\<lparr>isBind := (case b of None \<Rightarrow> False | Some x \<Rightarrow> x),
               flow_control := \<lparr>heartbeat_count = 0, fc_count = 0, consumer_restarts = 0\<rparr>\<rparr>)
      else Inr (opts\<lparr>isBind := (case b of None \<Rightarrow> False | Some x \<Rightarrow> x),
               flow_control := \<lparr>heartbeat_count = 0, fc_count = 0, consumer_restarts = 0\<rparr>\<rparr>))
       = Inr jsi2"
      using st(1) unfolding A_def jsi1_def by simp
  have 3: "(if truthy_str (durable_name (config jsi2))
          then processOptions_attach env subj
                 (jsi2\<lparr>config := (config jsi2)\<lparr>ack_policy :=
                          (if ack_policy (config jsi2) = Some Ack_NotSet then Some Ack_All
                           else ack_policy (config jsi2))\<rparr>,
                       api_prefix := client_prefix env, stream := s, attached := False\<rparr>)
          else Inr (jsi2\<lparr>config := (config jsi2)\<lparr>ack_policy :=
                          (if ack_policy (config jsi2) = Some Ack_NotSet then Some Ack_All
                           else ack_policy (config jsi2))\<rparr>,
                       api_prefix := client_prefix env, stream := s, attached := False\<rparr>))
       = Inr jsi6"
      using st(3) unfolding C_def j5 by simp
  have 4: "attached cso = attached jsi6" "ordered cso = ordered jsi6"
      "ack_policy (config cso) = ack_policy (config jsi6)"
      "deliver_subject (config cso) = deliver_subject (config jsi6)"
      by (simp_all add: st(4) D_def J7_def)
  have 5: "attached jsi6 \<longrightarrow> config cso = config jsi6"
    by (simp add: st(4) D_def J7_def)
  from 1 3 4 5 show ?thesis by blast
qed

lemma processOptions_Inr:
  assumes "processOptions env subj opts b = Inr cso"
  shows "ordered cso = ordered opts"
    and "ordered opts \<Longrightarrow> \<not> attached cso \<and> ack_policy (config cso) = Some Ack_None"
    and "\<not> ordered opts \<Longrightarrow> \<not> attached cso \<Longrightarrow>
           ack_policy (config cso) =
             (if ack_policy (config opts) = Some Ack_NotSet then Some Ack_All
              else ack_policy (config opts))
           \<and> deliver_subject (config cso) = deliver_subject (config opts)"
    and "attached cso \<Longrightarrow>
           \<exists>ci s d. consumer_info env s d = Inr (Some ci) \<and> config cso = ci_config ci"
proof -
  let ?jsi1 = "opts\<lparr>isBind := (case b of None \<Rightarrow> False | Some x \<Rightarrow> x),
       flow_control := \<lparr>heartbeat_count = 0, fc_count = 0, consumer_restarts = 0\<rparr>\<rparr>"
  obtain jsi2 s jsi6 where
    s1: "(if ordered opts then processOptions_ordered env ?jsi1 else Inr ?jsi1) = Inr jsi2"
    and s3: "(if truthy_str (durable_name (config jsi2))
          then processOptions_attach env subj
                 (jsi2\<lparr>config := (config jsi2)\<lparr>ack_policy :=
                          (if ack_policy (config jsi2) = Some Ack_NotSet then Some Ack_All
                           else ack_policy (config jsi2))\<rparr>,
                       api_prefix := client_prefix env, stream := s, attached := False\<rparr>)
          else Inr (jsi2\<lparr>config := (config jsi2)\<lparr>ack_policy :=
                          (if ack_policy (config jsi2) = Some Ack_NotSet then Some Ack_All
                           else ack_policy (config jsi2))\<rparr>,
                       api_prefix := client_prefix env, stream := s, attached := False\<rparr>))
       = Inr jsi6"
    and c: "attached cso = attached jsi6" "ordered cso = ordered jsi6"
      "ack_policy (config cso) = ack_policy (config jsi6)"
      "deliver_subject (config cso) = deliver_subject (config jsi6)"
    and cc: "attached jsi6 \<longrightarrow> config cso = config jsi6"
    using processOptions_stages [OF assms] by blast
  let ?jsi5 = "jsi2\<lparr>config := (config jsi2)\<lparr>ack_policy :=
                          (if ack_policy (config jsi2) = Some Ack_NotSet then Some Ack_All
                           else ack_policy (config jsi2))\<rparr>,
                       api_prefix := client_prefix env, stream := s, attached := False\<rparr>"
  have o2: "ordered jsi2 = ordered opts"
  proof (cases "ordered opts")
    case True
    with s1 have "processOptions_ordered env ?jsi1 = Inr jsi2" by simp
    from processOptions_ordered_Inr(1) [OF this] show ?thesis by simp
  next
    case False
    with s1 show ?thesis by auto
  qed
  have a6: "jsi6 = ?jsi5 \<or>
         (attached jsi6 \<and> ordered jsi6 = ordered ?jsi5 \<and>
          (\<exists>ci. consumer_info env (stream ?jsi5) (nullish (durable_name (config ?jsi5)) '''')
                   = Inr (Some ci) \<and> config jsi6 = ci_config ci))"
  proof (cases "truthy_str (durable_name (config jsi2))")
    case True
    with s3 have "processOptions_attach env subj ?jsi5 = Inr jsi6" by simp
    from processOptions_attach_Inr [OF this] show ?thesis .
  next
    case False
    with s3 show ?thesis by simp
  qed
  show "ordered cso = ordered opts"
    using a6 o2 c(2) by auto
  show "\<not> attached cso \<and> ack_policy (config cso) = Some Ack_None" if "ordered opts"
  proof -
    from that s1 have p: "processOptions_ordered env ?jsi1 = Inr jsi2" by simp
    from processOptions_ordered_Inr(3,4) [OF p] s3 have "jsi6 = ?jsi5" by simp
    with processOptions_ordered_Inr(3) [OF p] c(1,3) show ?thesis by simp
  qed
  show "ack_policy (config cso) =
             (if ack_policy (config opts) = Some Ack_NotSet then Some Ack_All
              else ack_policy (config opts))
           \<and> deliver_subject (config cso) = deliver_subject (config opts)"
    if "\<not> ordered opts" "\<not> attached cso"
  proof -
    from that(1) s1 have "jsi2 = ?jsi1" by simp
    moreover from that(2) c(1) a6 have "jsi6 = ?jsi5" by auto
    ultimately show ?thesis using c(3,4) by simp
  qed
  show "\<exists>ci s d. consumer_info env s d = Inr (Some ci) \<and> config cso = ci_config ci"
    if "attached cso"
  proof -
    from that c(1) a6 obtain ci where
      "consumer_info env (stream ?jsi5) (nullish (durable_name (config ?jsi5)) '''') = Inr (Some ci)"
      "config jsi6 = ci_config ci" "attached jsi6"
      by auto
    with cc show ?thesis by metis
  qed
qed

text \<open>
  C10, as amended. When the consumer options leave \<^verbatim>\<open>ack_policy\<close> at NotSet, a failure
  of option processing is rethrown, and when option processing succeeds without
  attaching to an existing consumer, pullSubscribe rejects before subscribing: ordered
  options have got \<^verbatim>\<open>ack_policy\<close> None and are rejected with ``pull subscribers cannot be
  be ordered''; for options that are not ordered, option processing has defaulted
  \<^verbatim>\<open>ack_policy\<close> to All, and if they set no \<^verbatim>\<open>deliver_subject\<close> the rejection is ``ack
  policy for pull consumers must be explicit''. pullSubscribe succeeds only for options
  that are not ordered and whose \<^verbatim>\<open>ack_policy\<close> after option processing is neither None
  nor All: the user's own, which then is not NotSet, when no consumer was attached, and
  that of the attached consumer's config otherwise.
\<close>

theorem pullSubscribe_ack_policy:
  "(ack_policy (config opts) = Some Ack_NotSet \<longrightarrow>
      (\<forall>e. processOptions env subj opts b = Inl e \<longrightarrow>
            pullSubscribe env subj opts b = (Inl e, [])) \<and>
      (\<forall>cso. processOptions env subj opts b = Inr cso \<and> \<not> attached cso \<longrightarrow>
         (\<exists>e. pullSubscribe env subj opts b = (Inl e, [])) \<and>
         (ordered opts \<longrightarrow>
            ack_policy (config cso) = Some Ack_None \<and>
            pullSubscribe env subj opts b =
              (Inl (Error ''pull subscribers cannot be be ordered''), [])) \<and>
         (\<not> ordered opts \<longrightarrow> ack_policy (config cso) = Some Ack_All) \<and>
         (\<not> ordered opts \<and> \<not> truthy_str (deliver_subject (config opts)) \<longrightarrow>
            pullSubscribe env subj opts b =
              (Inl (Error ''ack policy for pull consumers must be explicit''), []))))
   \<and> (\<forall>sub. fst (pullSubscribe env subj opts b) = Inr sub \<longrightarrow>
        (\<exists>cso. processOptions env subj opts b = Inr cso \<and> \<not> ordered opts \<and>
           ack_policy (config cso) \<noteq> Some Ack_None \<and>
           ack_policy (config cso) \<noteq> Some Ack_All \<and>
           (\<not> attached cso \<longrightarrow>
              ack_policy (config opts) = ack_policy (config cso) \<and>
              ack_policy (config opts) \<noteq> Some Ack_NotSet) \<and>
           (attached cso \<longrightarrow>
              (\<exists>ci s d. consumer_info env s d = Inr (Some ci) \<and> config cso = ci_config ci))))"
proof -
  have fail: "pullSubscribe env subj opts b = (Inl e, [])"
    if "processOptions env subj opts b = Inl e" for e
    using that by (simp add: pullSubscribe_def)
  have unset: "(\<exists>e. pullSubscribe env subj opts b = (Inl e, [])) \<and>
         (ordered opts \<longrightarrow>
            ack_policy (config cso) = Some Ack_None \<and>
            pullSubscribe env subj opts b =
              (Inl (Error ''pull subscribers cannot be be ordered''), [])) \<and>
         (\<not> ordered opts \<longrightarrow> ack_policy (config cso) = Some Ack_All) \<and>
         (\<not> ordered opts \<and> \<not> truthy_str (deliver_subject (config opts)) \<longrightarrow>
            pullSubscribe env subj opts b =
              (Inl (Error ''ack policy for pull consumers must be explicit''), []))"
    if p: "processOptions env subj opts b = Inr cso" and n: "ack_policy (config opts) = Some Ack_NotSet"
      and a: "\<not> attached cso" for cso
  proof (cases "ordered opts")
    case True
    from processOptions_Inr(1,2) [OF p] True
    have "ordered cso" "ack_policy (config cso) = Some Ack_None" by simp_all
    with p True show ?thesis by (simp add: pullSubscribe_def)
  next
    case False
    from processOptions_Inr(1) [OF p] processOptions_Inr(3) [OF p False a] False n
    have "\<not> ordered cso" "ack_policy (config cso) = Some Ack_All"
      "deliver_subject (config cso) = deliver_subject (config opts)" by simp_all
    with p False show ?thesis by (simp add: pullSubscribe_def)
  qed
  have ok: "\<exists>cso. processOptions env subj opts b = Inr cso \<and> \<not> ordered opts \<and>
           ack_policy (config cso) \<noteq> Some Ack_None \<and>
           ack_policy (config cso) \<noteq> Some Ack_All \<and>
           (\<not> attached cso \<longrightarrow>
              ack_policy (config opts) = ack_policy (config cso) \<and>
              ack_policy (config opts) \<noteq> Some Ack_NotSet) \<and>
           (attached cso \<longrightarrow>
              (\<exists>ci s d. consumer_info env s d = Inr (Some ci) \<and> config cso = ci_config ci))"
    if s: "fst (pullSubscribe env subj opts b) = Inr sub" for sub
  proof -
    from s obtain cso where p: "processOptions env subj opts b = Inr cso"
      by (cases "processOptions env subj opts b") (simp_all add: pullSubscribe_def)
    from s p have q: "\<not> ordered cso" "ack_policy (config cso) \<noteq> Some Ack_None"
      "ack_policy (config cso) \<noteq> Some Ack_All"
      by (auto simp add: pullSubscribe_def split: if_splits)
    from q(1) processOptions_Inr(1) [OF p] have no: "\<not> ordered opts" by simp
    have "ack_policy (config opts) = ack_policy (config cso) \<and>
          ack_policy (config opts) \<noteq> Some Ack_NotSet" if "\<not> attached cso"
      using processOptions_Inr(3) [OF p no that] q(3) by (auto split: if_splits)
    with p no q(2,3) processOptions_Inr(4) [OF p] show ?thesis by blast
  qed
  from fail unset ok show ?thesis by blast
qed

theorem pullSubscribe_ack_policy_witness:
  "pullSubscribe js0 ''orders.new'' unset_opts (Some False)
     = (Inl (Error ''ack policy for pull consumers must be explicit''), [])"
  using pullSubscribe_ack_policy [of unset_opts js0 "''orders.new''" "Some False"]
  by (simp add: pullSubscribe_def processOptions_def js0_def unset_opts_def no_config_def
      Let_def truthy_str_def nullish_def)

text \<open>
  C10 as stated fails: for ordered options that leave \<^verbatim>\<open>ack_policy\<close> at NotSet and
  attach to nothing, option processing sets \<^verbatim>\<open>ack_policy\<close> to None, not All, and
  pullSubscribe rejects with ``pull subscribers cannot be be ordered''.
\<close>

theorem pullSubscribe_ordered_rejected_as_ordered:
  "pullSubscribe js0 ''orders.new'' ordered_opts (Some False)
     = (Inl (Error ''pull subscribers cannot be be ordered''), [])
   \<and> map_sum id (\<lambda>cso. ack_policy (config cso))
        (processOptions js0 ''orders.new'' ordered_opts (Some False)) = Inr (Some Ack_None)"
  by (simp add: pullSubscribe_def processOptions_def processOptions_ordered_def js0_def
      ordered_opts_def unset_opts_def no_config_def Let_def truthy_str_def truthy_def nullish_def)


end
